theory Spec2Isabelle
  imports Main
begin

section \<open>Plain objects used as maps\<close>

text \<open>
  \<^verbatim>\<open>weatherCache\<close> and \<^verbatim>\<open>lastRefreshTimestamp\<close> are plain objects (\<^verbatim>\<open>{}\<close>)
  indexed by location id. A read \<^verbatim>\<open>obj[key]\<close> that finds no own property goes on to
  the object's prototype, which is \<^verbatim>\<open>Object.prototype\<close> at first; its members are
  functions, except \<^verbatim>\<open>__proto__\<close>, an accessor that reads as the prototype itself and
  that, when an object is assigned to it, makes that object the prototype instead of
  adding an own property. Assigning a number to it does nothing.

  \<^verbatim>\<open>Date.now()\<close> is an integral number of milliseconds; every function that reads
  the clock takes the reading as its first argument. A function that reads or writes a
  module-level object takes it as an argument and returns it with its result.

  The payload is the type parameter: a forecast object as the host supplies it. It is an
  object, so it is truthy; the page reads no member named \<^verbatim>\<open>timestamp\<close> or
  \<^verbatim>\<open>data\<close> of it, and a forecast is taken to have neither.
\<close>

definition objectPrototypeNames :: "string list" where
  "objectPrototypeNames =
     [''constructor'', ''__defineGetter__'', ''__defineSetter__'', ''hasOwnProperty'',
      ''__lookupGetter__'', ''__lookupSetter__'', ''isPrototypeOf'', ''propertyIsEnumerable'',
      ''toString'', ''valueOf'', ''__proto__'', ''toLocaleString'']"

section \<open>Weather cache\<close>

record 'w CachedWeatherData =
  data :: 'w
  timestamp :: int
  locationId :: string

text \<open>
  The cache object: its own properties, and the entry that has been made its prototype
  (\<open>None\<close> while the prototype is \<^verbatim>\<open>Object.prototype\<close>). The prototype of an
  entry is \<^verbatim>\<open>Object.prototype\<close>.
\<close>

record 'w WeatherCache =
  own :: "string \<rightharpoonup> 'w CachedWeatherData"
  proto :: "'w CachedWeatherData option"

definition emptyCache :: "'w WeatherCache" where
  "emptyCache = \<lparr>own = Map.empty, proto = None\<rparr>"

text \<open>What a read of the cache object can yield.\<close>

datatype 'w JsValue =
    JsUndefined
  | JsNumber int
  | JsString string
  | JsEntry "'w CachedWeatherData"
  | JsForecast 'w
  | JsBuiltin string
  | JsObjectPrototype

fun truthy :: "'w JsValue \<Rightarrow> bool" where
  "truthy JsUndefined = False"
| "truthy (JsNumber n) = (n \<noteq> 0)"
| "truthy (JsString s) = (s \<noteq> [])"
| "truthy (JsEntry e) = True"
| "truthy (JsForecast w) = True"
| "truthy (JsBuiltin f) = True"
| "truthy JsObjectPrototype = True"

text \<open>
  The member \<^verbatim>\<open>timestamp\<close> of a value as a number; \<open>None\<close> when the value has no
  such member, so that the subtraction gives \<^verbatim>\<open>NaN\<close> and every comparison is false.
\<close>

fun timestampOf :: "'w JsValue \<Rightarrow> int option" where
  "timestampOf (JsEntry e) = Some (timestamp e)"
| "timestampOf _ = None"

text \<open>The member \<^verbatim>\<open>data\<close> of a value; \<open>None\<close> is \<^verbatim>\<open>undefined\<close>.\<close>

fun dataOf :: "'w JsValue \<Rightarrow> 'w option" where
  "dataOf (JsEntry e) = Some (data e)"
| "dataOf _ = None"

text \<open>What the prototype chain yields for a key that is not an own property.\<close>

definition inherited :: "string \<Rightarrow> 'w WeatherCache \<Rightarrow> 'w JsValue" where
  "inherited key cache =
     (case proto cache of
        Some e \<Rightarrow>
          if key = ''data'' then JsForecast (data e)
          else if key = ''timestamp'' then JsNumber (timestamp e)
          else if key = ''locationId'' then JsString (locationId e)
          else if key = ''__proto__'' then JsEntry e
          else if key \<in> set objectPrototypeNames then JsBuiltin key
          else JsUndefined
      | None \<Rightarrow>
          if key = ''__proto__'' then JsObjectPrototype
          else if key \<in> set objectPrototypeNames then JsBuiltin key
          else JsUndefined)"

text \<open>The read \<^verbatim>\<open>weatherCache[key]\<close>.\<close>

definition lookup :: "string \<Rightarrow> 'w WeatherCache \<Rightarrow> 'w JsValue" where
  "lookup key cache =
     (case own cache key of Some e \<Rightarrow> JsEntry e | None \<Rightarrow> inherited key cache)"

definition CACHE_TTL_MS :: int where
  "CACHE_TTL_MS = 5 * 60 * 1000"

text \<open>The result \<open>None\<close> is \<^verbatim>\<open>null\<close>.\<close>

definition getCachedWeather ::
  "int \<Rightarrow> string \<Rightarrow> 'w WeatherCache \<Rightarrow> 'w JsValue option \<times> 'w WeatherCache" where
  "getCachedWeather now lid cache =
     (let cached = lookup lid cache
      in if \<not> truthy cached then (None, cache)
         else
           (let isExpired =
                  (case timestampOf cached of
                     Some t \<Rightarrow> now - t > CACHE_TTL_MS
                   | None \<Rightarrow> False)
            in if isExpired then (None, cache\<lparr>own := (own cache)(lid := None)\<rparr>)
               else (Some cached, cache)))"

definition setCachedWeather ::
  "int \<Rightarrow> string \<Rightarrow> 'w \<Rightarrow> 'w WeatherCache \<Rightarrow> 'w WeatherCache" where
  "setCachedWeather now lid d cache =
     (let entry = \<lparr>data = d, timestamp = now, locationId = lid\<rparr>
      in if lid = ''__proto__'' then cache\<lparr>proto := Some entry\<rparr>
         else cache\<lparr>own := (own cache)(lid \<mapsto> entry)\<rparr>)"

definition isCacheStale :: "int \<Rightarrow> string \<Rightarrow> 'w WeatherCache \<Rightarrow> bool \<times> 'w WeatherCache" where
  "isCacheStale now lid cache =
     (let cached = lookup lid cache
      in if \<not> truthy cached then (True, cache)
         else ((case timestampOf cached of
                  Some t \<Rightarrow> now - t > CACHE_TTL_MS
                | None \<Rightarrow> False), cache))"

text \<open>
  A key inherits when the prototype chain has a member of that name: a member of
  \<^verbatim>\<open>Object.prototype\<close>, or a member of an entry that was put under \<^verbatim>\<open>__proto__\<close>.
\<close>

definition inherits :: "string \<Rightarrow> 'w WeatherCache \<Rightarrow> bool" where
  "inherits key cache =
     (key \<in> set objectPrototypeNames
      \<or> (proto cache \<noteq> None \<and> key \<in> set [''data'', ''timestamp'', ''locationId'']))"


subsection \<open>Histories of cache operations\<close>







section \<open>Refresh throttle\<close>

text \<open>
  The own properties of \<^verbatim>\<open>lastRefreshTimestamp\<close>; each is a clock reading. Its
  prototype stays \<^verbatim>\<open>Object.prototype\<close>, since only numbers are assigned. The test
  \<^verbatim>\<open>!lastRefresh\<close> holds for \<^verbatim>\<open>undefined\<close> and also for the number 0. An inherited
  member is truthy and subtracting it gives \<^verbatim>\<open>NaN\<close>.
\<close>

type_synonym RefreshLog = "string \<rightharpoonup> int"

definition REFRESH_COOLDOWN_MS :: int where
  "REFRESH_COOLDOWN_MS = 30 * 1000"

definition canRefresh :: "int \<Rightarrow> string \<Rightarrow> RefreshLog \<Rightarrow> bool" where
  "canRefresh now lid log =
     (case log lid of
        Some lastRefresh \<Rightarrow>
          if lastRefresh = 0 then True else now - lastRefresh > REFRESH_COOLDOWN_MS
      | None \<Rightarrow>
          if lid \<in> set objectPrototypeNames then False else True)"

definition recordRefresh :: "int \<Rightarrow> string \<Rightarrow> RefreshLog \<Rightarrow> RefreshLog" where
  "recordRefresh now lid log = (if lid = ''__proto__'' then log else log(lid \<mapsto> now))"

section \<open>Debounce\<close>

text \<open>
  \<^verbatim>\<open>debounce(func, wait)\<close> returns a closure over the variable \<^verbatim>\<open>timeoutId\<close>. The
  host's timer queue is part of the state: \<^verbatim>\<open>timers\<close> holds the pending timers this
  closure has set, each with its handle, the time it is due and the arguments it will pass,
  oldest first. A handle is truthy in every host, so \<^verbatim>\<open>if (timeoutId)\<close> tests for
  \<^verbatim>\<open>null\<close>. \<^verbatim>\<open>target\<close> is the state \<^verbatim>\<open>func\<close> acts on; \<^verbatim>\<open>func\<close> is also told
  the time at which the host runs it.
\<close>

record ('a, 's) Debounce =
  timers :: "(nat \<times> int \<times> 'a) list"
  nextHandle :: nat
  timeoutId :: "nat option"
  target :: 's

definition clearTimeout :: "nat \<Rightarrow> (nat \<times> int \<times> 'a) list \<Rightarrow> (nat \<times> int \<times> 'a) list" where
  "clearTimeout h ts = filter (\<lambda>(i, _, _). i \<noteq> h) ts"

definition setTimeout :: "int \<Rightarrow> 'a \<Rightarrow> ('a, 's) Debounce \<Rightarrow> ('a, 's) Debounce" where
  "setTimeout due args D =
     D\<lparr>timers := timers D @ [(nextHandle D, due, args)],
       nextHandle := Suc (nextHandle D),
       timeoutId := Some (nextHandle D)\<rparr>"

text \<open>The closure \<^verbatim>\<open>debounce\<close> returns, called at time \<open>now\<close>.\<close>

definition debounced :: "int \<Rightarrow> int \<Rightarrow> 'a \<Rightarrow> ('a, 's) Debounce \<Rightarrow> ('a, 's) Debounce" where
  "debounced wait now args D =
     (let D1 = (case timeoutId D of
                  Some h \<Rightarrow> D\<lparr>timers := clearTimeout h (timers D)\<rparr>
                | None \<Rightarrow> D)
      in setTimeout (now + wait) args D1)"

text \<open>The timer's callback: \<^verbatim>\<open>func(...args); timeoutId = null\<close>.\<close>

definition timer_fires ::
  "(int \<Rightarrow> 'a \<Rightarrow> 's \<Rightarrow> 's) \<Rightarrow> nat \<times> int \<times> 'a \<Rightarrow> ('a, 's) Debounce \<Rightarrow> ('a, 's) Debounce" where
  "timer_fires func tm D =
     (case tm of (h, due, args) \<Rightarrow>
        D\<lparr>timers := clearTimeout h (timers D),
          target := func due args (target D),
          timeoutId := None\<rparr>)"

fun fire_all ::
  "(int \<Rightarrow> 'a \<Rightarrow> 's \<Rightarrow> 's) \<Rightarrow> (nat \<times> int \<times> 'a) list \<Rightarrow> ('a, 's) Debounce \<Rightarrow> ('a, 's) Debounce" where
  "fire_all func [] D = D"
| "fire_all func (tm # tms) D = fire_all func tms (timer_fires func tm D)"

text \<open>
  The host's event loop reaching time \<open>now\<close>: every pending timer that is due by then
  fires, in queue order, each at the time it is due.
\<close>

definition elapse ::
  "(int \<Rightarrow> 'a \<Rightarrow> 's \<Rightarrow> 's) \<Rightarrow> int \<Rightarrow> ('a, 's) Debounce \<Rightarrow> ('a, 's) Debounce" where
  "elapse func now D = fire_all func (filter (\<lambda>(_, due, _). due \<le> now) (timers D)) D"

text \<open>A sequence of calls of the closure, each with the time it is made at.\<close>

fun calls ::
  "(int \<Rightarrow> 'a \<Rightarrow> 's \<Rightarrow> 's) \<Rightarrow> int \<Rightarrow> (int \<times> 'a) list \<Rightarrow> ('a, 's) Debounce \<Rightarrow> ('a, 's) Debounce" where
  "calls func wait [] D = D"
| "calls func wait ((t, args) # cs) D = calls func wait cs (debounced wait t args (elapse func t D))"

text \<open>Consecutive calls less than \<open>wait\<close> apart, on a clock that does not run backwards.\<close>

fun burst :: "int \<Rightarrow> (int \<times> 'a) list \<Rightarrow> bool" where
  "burst wait [] = True"
| "burst wait [c] = True"
| "burst wait (c1 # c2 # cs) = (fst c1 \<le> fst c2 \<and> fst c2 - fst c1 < wait \<and> burst wait (c2 # cs))"

text \<open>An action that only records when and with what argument it was invoked.\<close>

definition invoked :: "int \<Rightarrow> 'a \<Rightarrow> (int \<times> 'a) list \<Rightarrow> (int \<times> 'a) list" where
  "invoked t args log = log @ [(t, args)]"

definition idle :: "nat \<Rightarrow> 's \<Rightarrow> ('a, 's) Debounce" where
  "idle h s = \<lparr>timers = [], nextHandle = h, timeoutId = None, target = s\<rparr>"

section \<open>Weather page\<close>

text \<open>
  What the page reads from the host on a render: the values of \<^verbatim>\<open>useAppData()\<close> and
  the active location id of the sidebar context (\<^verbatim>\<open>''\<close> when none is set). A value that
  may be \<^verbatim>\<open>null\<close> or \<^verbatim>\<open>undefined\<close> is an option. Of the device location only its
  presence and name are used.
\<close>

record Location =
  loc_id :: string
  loc_name :: string
  isHome :: bool

record 'w Props =
  weather :: "'w option"
  weatherLoading :: bool
  weatherError :: "string option"
  homeLocation :: "Location option"
  savedLocations :: "Location list"
  currentLocation :: "string option"
  weatherLocationId :: string

text \<open>
  The state the page's effects act on: the two module-level maps, the two state hooks,
  and \<open>history\<close>, which records in program order each call of \<^verbatim>\<open>recordRefresh\<close> and
  each call of the host's \<^verbatim>\<open>refreshWeather\<close>.
\<close>

datatype call = RecordRefresh string | RefreshWeather "string option"

record 'w Page =
  weatherCache :: "'w WeatherCache"
  lastRefreshTimestamp :: RefreshLog
  cachedWeatherDisplay :: "'w option"
  isRevalidating :: bool
  history :: "call list"

definition LAST_LOCATION_KEY :: string where
  "LAST_LOCATION_KEY = ''lastViewedWeatherLocation''"

text \<open>
  The expression
  \<^verbatim>\<open>weatherLocationId || (currentLocation ? 'current-location' : homeLocation?.id) || 'default'\<close>
  of both cache effects.
\<close>

definition effectLocationId :: "'w Props \<Rightarrow> string" where
  "effectLocationId props =
     (if weatherLocationId props \<noteq> [] then weatherLocationId props
      else (case (if currentLocation props \<noteq> None then Some ''current-location''
                  else map_option loc_id (homeLocation props)) of
              Some l \<Rightarrow> if l \<noteq> [] then l else ''default''
            | None \<Rightarrow> ''default''))"

definition page_recordRefresh :: "int \<Rightarrow> string \<Rightarrow> 'w Page \<Rightarrow> 'w Page" where
  "page_recordRefresh now lid p =
     p\<lparr>lastRefreshTimestamp := recordRefresh now lid (lastRefreshTimestamp p),
       history := history p @ [RecordRefresh lid]\<rparr>"

definition refreshWeather :: "string option \<Rightarrow> 'w Page \<Rightarrow> 'w Page" where
  "refreshWeather arg p = p\<lparr>history := history p @ [RefreshWeather arg]\<rparr>"

text \<open>
  The action the page debounces. \<open>now1\<close> is the clock as \<^verbatim>\<open>canRefresh\<close> reads it,
  \<open>now2\<close> as \<^verbatim>\<open>recordRefresh\<close> does.
\<close>

definition refreshAction :: "int \<Rightarrow> int \<Rightarrow> string \<Rightarrow> 'w Page \<Rightarrow> 'w Page" where
  "refreshAction now1 now2 locId p =
     (if canRefresh now1 locId (lastRefreshTimestamp p)
      then refreshWeather (Some locId) ((page_recordRefresh now2 locId p)\<lparr>isRevalidating := True\<rparr>)
      else p)"

definition debouncedRefresh ::
  "int \<Rightarrow> string \<Rightarrow> (string, 'w Page) Debounce \<Rightarrow> (string, 'w Page) Debounce" where
  "debouncedRefresh now lid D = debounced 300 now lid D"

text \<open>
  The stale-while-revalidate effect, run when the active location changes. \<open>clk 0\<close>,
  \<open>clk 1\<close> and \<open>clk 2\<close> are the clock at the first, second and third point of the run
  that look at the time.
\<close>

definition locationEffect ::
  "(nat \<Rightarrow> int) \<Rightarrow> 'w Props \<Rightarrow> (string, 'w Page) Debounce \<Rightarrow> (string, 'w Page) Debounce" where
  "locationEffect clk props D =
     (let lid = effectLocationId props;
          p = target D;
          (cached, cache1) = getCachedWeather (clk 0) lid (weatherCache p);
          p1 = p\<lparr>weatherCache := cache1\<rparr>
      in case cached of
           Some v \<Rightarrow>
             (let p2 = p1\<lparr>cachedWeatherDisplay := dataOf v\<rparr>;
                  (stale, cache2) = isCacheStale (clk 1) lid (weatherCache p2);
                  D2 = D\<lparr>target := p2\<lparr>weatherCache := cache2\<rparr>\<rparr>
              in if stale then debouncedRefresh (clk 2) lid D2 else D2)
         | None \<Rightarrow>
             (let p2 = p1\<lparr>cachedWeatherDisplay := None, isRevalidating := True\<rparr>
              in if canRefresh (clk 1) lid (lastRefreshTimestamp p2)
                 then D\<lparr>target := refreshWeather (if lid = ''default'' then None else Some lid)
                                     (page_recordRefresh (clk 2) lid p2)\<rparr>
                 else D\<lparr>target := p2\<rparr>))"

text \<open>The effect run when the host's \<^verbatim>\<open>weather\<close> (or the active location) changes.\<close>

definition weatherEffect :: "int \<Rightarrow> 'w Props \<Rightarrow> 'w Page \<Rightarrow> 'w Page" where
  "weatherEffect now props p =
     (case weather props of
        None \<Rightarrow> p
      | Some w \<Rightarrow>
          (let lid = effectLocationId props
           in p\<lparr>weatherCache := setCachedWeather now lid w (weatherCache p),
                cachedWeatherDisplay := Some w,
                isRevalidating := False\<rparr>))"

definition displayWeather :: "'w Props \<Rightarrow> 'w Page \<Rightarrow> 'w option" where
  "displayWeather props p =
     (case cachedWeatherDisplay p of Some w \<Rightarrow> Some w | None \<Rightarrow> weather props)"

text \<open>
  What the page renders: the error message alone, or the forecast layout filled from
  \<^verbatim>\<open>displayWeather\<close>. An error string is truthy unless it is empty.
\<close>

datatype 'w View = ErrorView string | ForecastView "'w option"

definition render :: "'w Props \<Rightarrow> 'w Page \<Rightarrow> 'w View" where
  "render props p =
     (case weatherError props of
        Some msg \<Rightarrow>
          if msg \<noteq> [] \<and> displayWeather props p = None then ErrorView msg
          else ForecastView (displayWeather props p)
      | None \<Rightarrow> ForecastView (displayWeather props p))"

text \<open>
  \<^verbatim>\<open>initializeLocation\<close>, given the host's storage: the argument it passes to
  \<^verbatim>\<open>setWeatherLocationId\<close>, or \<open>None\<close> when it does not call it.
\<close>

definition initializeLocation :: "(string \<rightharpoonup> string) \<Rightarrow> 'w Props \<Rightarrow> string option" where
  "initializeLocation storage props =
     (if weatherLocationId props = [] then
        (let lastLocation = storage LAST_LOCATION_KEY;
             restored =
               (case lastLocation of
                  None \<Rightarrow> None
                | Some l \<Rightarrow>
                    if l \<noteq> [] then
                      (let isValidSaved = list_ex (\<lambda>loc. loc_id loc = l) (savedLocations props);
                           isCurrentLocation = (l = ''current-location'' \<and> currentLocation props \<noteq> None);
                           isHome = (map_option loc_id (homeLocation props) = Some l)
                       in if isValidSaved \<or> isCurrentLocation \<or> isHome then Some l else None)
                    else None)
         in case restored of
              Some l \<Rightarrow> Some l
            | None \<Rightarrow>
                if currentLocation props \<noteq> None then Some ''current-location''
                else (case homeLocation props of Some h \<Rightarrow> Some (loc_id h) | None \<Rightarrow> None))
      else None)"

text \<open>The effect that saves the active location, run when it changes.\<close>

definition saveLocationEffect :: "'w Props \<Rightarrow> (string \<rightharpoonup> string) \<Rightarrow> (string \<rightharpoonup> string)" where
  "saveLocationEffect props storage =
     (if weatherLocationId props \<noteq> [] then storage(LAST_LOCATION_KEY \<mapsto> weatherLocationId props)
      else storage)"

text \<open>At most one timer of the closure is pending, and \<^verbatim>\<open>timeoutId\<close> holds its handle.\<close>

definition one_pending :: "('a, 's) Debounce \<Rightarrow> bool" where
  "one_pending D =
     (case timers D of
        [] \<Rightarrow> True
      | [(h, due, args)] \<Rightarrow> timeoutId D = Some h
      | _ \<Rightarrow> False)"

text \<open>An example burst of calls.\<close>

definition three_calls :: "(int \<times> string) list" where
  "three_calls = [(0, ''paris''), (100, ''tokyo''), (399, ''nyc'')]"

text \<open>
  The host's event loop reaching time \<open>now\<close> for the page's debounced refresh; the
  action reads the clock at the time it runs.
\<close>

definition runTimers :: "int \<Rightarrow> (string, 'w Page) Debounce \<Rightarrow> (string, 'w Page) Debounce" where
  "runTimers now D = elapse (\<lambda>t. refreshAction t t) now D"

text \<open>Example states of the page.\<close>

definition paris_refreshed :: "nat Page" where
  "paris_refreshed =
     \<lparr>weatherCache = emptyCache, lastRefreshTimestamp = Map.empty(''paris'' \<mapsto> 1000),
      cachedWeatherDisplay = Some 7, isRevalidating = False, history = []\<rparr>"

definition tokyo_props :: "string Props" where
  "tokyo_props =
     \<lparr>weather = Some ''paris forecast'', weatherLoading = False, weatherError = None,
      homeLocation = None, savedLocations = [], currentLocation = None,
      weatherLocationId = ''tokyo''\<rparr>"

definition tokyo_shown :: "string Page" where
  "tokyo_shown =
     \<lparr>weatherCache = \<lparr>own = Map.empty(''tokyo'' \<mapsto>
        \<lparr>data = ''tokyo forecast'', timestamp = 4000, locationId = ''tokyo''\<rparr>), proto = None\<rparr>,
      lastRefreshTimestamp = Map.empty(''paris'' \<mapsto> 3000),
      cachedWeatherDisplay = Some ''tokyo forecast'', isRevalidating = False, history = []\<rparr>"

definition paris_props :: "string Props" where
  "paris_props =
     \<lparr>weather = Some ''tokyo forecast'', weatherLoading = False, weatherError = None,
      homeLocation = None, savedLocations = [], currentLocation = None,
      weatherLocationId = ''paris''\<rparr>"

definition paris_stale :: "(string, string Page) Debounce" where
  "paris_stale =
     idle 1
       \<lparr>weatherCache = \<lparr>own = Map.empty(''paris'' \<mapsto>
          \<lparr>data = ''paris forecast'', timestamp = 1000, locationId = ''paris''\<rparr>), proto = None\<rparr>,
        lastRefreshTimestamp = Map.empty,
        cachedWeatherDisplay = Some ''tokyo forecast'', isRevalidating = False, history = []\<rparr>"

definition berlin_props :: "string Props" where
  "berlin_props =
     \<lparr>weather = None, weatherLoading = False, weatherError = None,
      homeLocation = Some \<lparr>loc_id = ''home'', loc_name = ''Home'', isHome = True\<rparr>,
      savedLocations = [\<lparr>loc_id = ''home'', loc_name = ''Home'', isHome = True\<rparr>,
                        \<lparr>loc_id = ''berlin'', loc_name = ''Berlin'', isHome = False\<rparr>],
      currentLocation = None,
      weatherLocationId = []\<rparr>"


definition home_props :: "string Props" where
  "home_props =
     \<lparr>weather = None, weatherLoading = False, weatherError = None,
      homeLocation = Some \<lparr>loc_id = ''home'', loc_name = ''Home'', isHome = True\<rparr>,
      savedLocations = [], currentLocation = None,
      weatherLocationId = []\<rparr>"

definition timeout_props :: "string Props" where
  "timeout_props =
     \<lparr>weather = None, weatherLoading = False, weatherError = Some ''timeout'',
      homeLocation = None, savedLocations = [], currentLocation = None,
      weatherLocationId = ''paris''\<rparr>"

section \<open>Properties of the cache\<close>

lemma proto_name: "''__proto__'' \<in> set objectPrototypeNames"
  by (simp add: objectPrototypeNames_def)

lemma inherited_none: "\<not> inherits key c \<Longrightarrow> inherited key c = JsUndefined"
  using proto_name by (auto simp: inherits_def inherited_def split: option.splits)

lemma lookup_own:
  "\<not> inherits key c \<Longrightarrow>
     lookup key c = (case own c key of Some e \<Rightarrow> JsEntry e | None \<Rightarrow> JsUndefined)"
  by (simp add: lookup_def inherited_none split: option.splits)


lemma isCacheStale_own:
  assumes "\<not> inherits lid c"
  shows "fst (isCacheStale now lid c) =
           (case own c lid of None \<Rightarrow> True | Some e \<Rightarrow> now - timestamp e > CACHE_TTL_MS)"
  by (simp add: isCacheStale_def lookup_own [OF assms] Let_def split: option.splits)

lemma isCacheStale_frame: "snd (isCacheStale now lid c) = c"
  by (simp add: isCacheStale_def Let_def)















text \<open>
  C4 as claimed: for every location id, \<^verbatim>\<open>isCacheStale\<close> is true when no entry
  exists for it. For the id \<^verbatim>\<open>toString\<close> and the empty cache it is false.
\<close>

theorem isCacheStale_inherited_counterexample:
  "own (emptyCache :: nat WeatherCache) ''toString'' = None
   \<and> \<not> fst (isCacheStale 1000 ''toString'' (emptyCache :: nat WeatherCache))"
  by (simp add: isCacheStale_def lookup_def inherited_def emptyCache_def
        objectPrototypeNames_def Let_def)

text \<open>
  C4 as amended. For every location id that names no member the cache object inherits,
  \<^verbatim>\<open>isCacheStale\<close> answers true exactly when the location has no entry or its entry
  is older than the 300 s TTL. For every location id it leaves the cache as it found it,
  and an own entry older than the TTL makes it answer true and is still there afterwards,
  where \<^verbatim>\<open>getCachedWeather\<close> removes it.
\<close>

theorem isCacheStale_spec:
  "(\<not> inherits lid c \<longrightarrow>
      fst (isCacheStale now lid c) =
        (own c lid = None \<or> (\<exists>e. own c lid = Some e \<and> now - timestamp e > 300 * 1000)))
   \<and> snd (isCacheStale now lid c) = c
   \<and> (\<forall>e. own c lid = Some e \<and> now - timestamp e > 300 * 1000 \<longrightarrow>
         fst (isCacheStale now lid c)
         \<and> own (snd (isCacheStale now lid c)) lid = Some e
         \<and> own (snd (getCachedWeather now lid c)) lid = None)"
proof (intro conjI impI allI)
  assume "\<not> inherits lid c"
  then show "fst (isCacheStale now lid c) =
        (own c lid = None \<or> (\<exists>e. own c lid = Some e \<and> now - timestamp e > 300 * 1000))"
    by (auto simp: isCacheStale_own CACHE_TTL_MS_def split: option.splits)
next
  show "snd (isCacheStale now lid c) = c" by (rule isCacheStale_frame)
next
  fix e assume h: "own c lid = Some e \<and> now - timestamp e > 300 * 1000"
  then show "fst (isCacheStale now lid c)"
    by (simp add: isCacheStale_def lookup_def CACHE_TTL_MS_def)
  from h show "own (snd (isCacheStale now lid c)) lid = Some e"
    by (simp add: isCacheStale_frame)
  from h show "own (snd (getCachedWeather now lid c)) lid = None"
    by (simp add: getCachedWeather_def lookup_def CACHE_TTL_MS_def)
qed

theorem isCacheStale_spec_witness:
  "fst (isCacheStale 301000 ''nyc''
          \<lparr>own = Map.empty(''nyc'' \<mapsto> \<lparr>data = (7::nat), timestamp = 0, locationId = ''nyc''\<rparr>),
           proto = None\<rparr>)
   \<and> fst (isCacheStale 301000 ''nyc'' (emptyCache :: nat WeatherCache))
   \<and> own (snd (isCacheStale 301000 ''nyc''
          \<lparr>own = Map.empty(''nyc'' \<mapsto> \<lparr>data = (7::nat), timestamp = 0, locationId = ''nyc''\<rparr>),
           proto = None\<rparr>)) ''nyc''
     = Some \<lparr>data = 7, timestamp = 0, locationId = ''nyc''\<rparr>
   \<and> own (snd (getCachedWeather 301000 ''nyc''
          \<lparr>own = Map.empty(''nyc'' \<mapsto> \<lparr>data = (7::nat), timestamp = 0, locationId = ''nyc''\<rparr>),
           proto = None\<rparr>)) ''nyc''
     = None"
proof -
  let ?e = "\<lparr>data = (7::nat), timestamp = 0, locationId = ''nyc''\<rparr>"
  let ?c = "\<lparr>own = Map.empty(''nyc'' \<mapsto> ?e), proto = None\<rparr>"
  have h: "own ?c ''nyc'' = Some ?e \<and> 301000 - timestamp ?e > 300 * 1000" by simp
  have n: "\<not> inherits ''nyc'' (emptyCache :: nat WeatherCache)"
    by (simp add: inherits_def objectPrototypeNames_def)
  have o: "own (emptyCache :: nat WeatherCache) ''nyc'' = None" by (simp add: emptyCache_def)
  from isCacheStale_spec [of "''nyc''" ?c 301000] h
  have 1: "fst (isCacheStale 301000 ''nyc'' ?c)
      \<and> own (snd (isCacheStale 301000 ''nyc'' ?c)) ''nyc'' = Some ?e
      \<and> own (snd (getCachedWeather 301000 ''nyc'' ?c)) ''nyc'' = None"
    by blast
  from isCacheStale_spec [of "''nyc''" "emptyCache :: nat WeatherCache" 301000] n o
  have 2: "fst (isCacheStale 301000 ''nyc'' (emptyCache :: nat WeatherCache))"
    by blast
  from 1 2 show ?thesis by simp
qed








section \<open>Properties of the throttle\<close>

text \<open>
  C5 as claimed: \<^verbatim>\<open>canRefresh\<close> is false right after \<^verbatim>\<open>recordRefresh\<close>, and true
  whenever no record exists. A record made at clock reading 0 is taken for no record; and
  for the id \<^verbatim>\<open>constructor\<close>, with no record, the answer is false.
\<close>

theorem canRefresh_counterexample:
  "canRefresh 0 ''paris'' (recordRefresh 0 ''paris'' Map.empty)
   \<and> (Map.empty :: RefreshLog) ''constructor'' = None
   \<and> \<not> canRefresh 1000 ''constructor'' Map.empty"
  by (simp add: canRefresh_def recordRefresh_def objectPrototypeNames_def)

text \<open>
  C5 as amended. For every location id that is not the name of a member of
  \<^verbatim>\<open>Object.prototype\<close>, and on a clock that never reads 0: \<^verbatim>\<open>canRefresh\<close> is true
  exactly when the location has no record or more than 30 s have passed since the
  recorded time; it is false right after \<^verbatim>\<open>recordRefresh\<close>, and stays false until
  more than 30 s have passed.
\<close>

theorem canRefresh_spec:
  assumes "lid \<notin> set objectPrototypeNames" and "0 \<notin> ran log" and "t \<noteq> 0"
  shows "canRefresh now lid log =
           (log lid = None \<or> (\<exists>last. log lid = Some last \<and> now - last > 30 * 1000))
       \<and> \<not> canRefresh t lid (recordRefresh t lid log)
       \<and> (canRefresh now lid (recordRefresh t lid log) \<longrightarrow> now - t > 30 * 1000)
       \<and> (now - t \<le> 30 * 1000 \<longrightarrow> \<not> canRefresh now lid (recordRefresh t lid log))"
proof -
  have z: "log lid \<noteq> Some 0" using assms(2) by (auto simp: ran_def)
  have p: "lid \<noteq> ''__proto__''" using assms(1) by (auto simp: objectPrototypeNames_def)
  show ?thesis using assms(1,3) z p
    by (auto simp: canRefresh_def recordRefresh_def REFRESH_COOLDOWN_MS_def split: option.splits)
qed

theorem canRefresh_spec_witness:
  "canRefresh 1000 ''paris'' Map.empty
   \<and> \<not> canRefresh 1000 ''paris'' (recordRefresh 1000 ''paris'' Map.empty)
   \<and> \<not> canRefresh 31000 ''paris'' (recordRefresh 1000 ''paris'' Map.empty)
   \<and> canRefresh 31001 ''paris'' (recordRefresh 1000 ''paris'' Map.empty)"
proof -
  have n: "''paris'' \<notin> set objectPrototypeNames" by (simp add: objectPrototypeNames_def)
  have a: "0 \<notin> ran (Map.empty :: RefreshLog)" by simp
  have b: "(1000::int) \<noteq> 0" by simp
  have c: "0 \<notin> ran (recordRefresh 1000 ''paris'' Map.empty)" by (simp add: recordRefresh_def)
  have d: "recordRefresh 1000 ''paris'' Map.empty ''paris'' = Some 1000"
    by (simp add: recordRefresh_def)
  from canRefresh_spec [OF n a b, of 1000]
  have 1: "canRefresh 1000 ''paris'' Map.empty"
    and 2: "\<not> canRefresh 1000 ''paris'' (recordRefresh 1000 ''paris'' Map.empty)"
    by simp_all
  from canRefresh_spec [OF n a b, of 31000]
  have 3: "\<not> canRefresh 31000 ''paris'' (recordRefresh 1000 ''paris'' Map.empty)"
    by simp
  from canRefresh_spec [OF n c b, of 31001] d
  have 4: "canRefresh 31001 ''paris'' (recordRefresh 1000 ''paris'' Map.empty)"
    by simp
  from 1 2 3 4 show ?thesis by simp
qed

section \<open>Properties of debounce\<close>

lemma debounced_one_pending:
  assumes "one_pending D"
  shows "debounced wait now args D =
           D\<lparr>timers := [(nextHandle D, now + wait, args)],
             nextHandle := Suc (nextHandle D),
             timeoutId := Some (nextHandle D)\<rparr>"
  using assms
  by (auto simp: one_pending_def debounced_def setTimeout_def clearTimeout_def
           split: option.splits list.splits)

lemma elapse_none_due:
  assumes "\<forall>tm\<in>set (timers D). now < fst (snd tm)"
  shows "elapse func now D = D"
proof -
  have "filter (\<lambda>(_, due, _). due \<le> now) (timers D) = []"
    using assms by (auto simp: filter_empty_conv)
  then show ?thesis by (simp add: elapse_def)
qed

lemma elapse_one_due:
  assumes "timers D = [(h, due, args)]" and "due \<le> now"
  shows "elapse func now D =
           D\<lparr>timers := [], target := func due args (target D), timeoutId := None\<rparr>"
  using assms by (simp add: elapse_def timer_fires_def clearTimeout_def)

lemma calls_burst:
  assumes "burst wait ((t, args) # cs)" and "one_pending D"
    and "\<forall>tm\<in>set (timers D). t < fst (snd tm)"
  shows "calls func wait ((t, args) # cs) D =
           D\<lparr>timers := [(nextHandle D + length cs, fst (last ((t, args) # cs)) + wait,
                          snd (last ((t, args) # cs)))],
             nextHandle := Suc (nextHandle D + length cs),
             timeoutId := Some (nextHandle D + length cs)\<rparr>"
  using assms
proof (induction cs arbitrary: t args D)
  case Nil
  then show ?case
    by (simp add: elapse_none_due debounced_one_pending)
next
  case (Cons c cs)
  obtain t2 args2 where c: "c = (t2, args2)" by (cases c)
  let ?D1 = "debounced wait t args (elapse func t D)"
  have D1: "?D1 = D\<lparr>timers := [(nextHandle D, t + wait, args)],
             nextHandle := Suc (nextHandle D), timeoutId := Some (nextHandle D)\<rparr>"
    using Cons.prems by (simp add: elapse_none_due debounced_one_pending)
  have b: "burst wait ((t2, args2) # cs)" and gap: "t2 - t < wait"
    using Cons.prems(1) by (simp_all add: c)
  have op: "one_pending ?D1" by (simp add: D1 one_pending_def)
  have nd: "\<forall>tm\<in>set (timers ?D1). t2 < fst (snd tm)" using gap by (simp add: D1)
  have "calls func wait ((t, args) # c # cs) D = calls func wait ((t2, args2) # cs) ?D1"
    by (simp add: c)
  also have "\<dots> = ?D1\<lparr>timers := [(nextHandle ?D1 + length cs,
                          fst (last ((t2, args2) # cs)) + wait, snd (last ((t2, args2) # cs)))],
             nextHandle := Suc (nextHandle ?D1 + length cs),
             timeoutId := Some (nextHandle ?D1 + length cs)\<rparr>"
    by (rule Cons.IH [OF b op nd])
  finally show ?case by (simp add: D1 c)
qed

text \<open>
  C6. For one or more calls of the debounced closure, each less than 300 ms after the one
  before, the action is invoked exactly once, with the argument of the last call, 300 ms
  after the last call and not earlier; after the calls the timer queue holds the timer
  of the last call only, the earlier ones having been cancelled.
\<close>

theorem debounce_spec:
  assumes "cs \<noteq> []" and "burst 300 cs"
  shows "target (elapse invoked T (calls invoked 300 cs (idle h []))) =
           (if fst (last cs) + 300 \<le> T then [(fst (last cs) + 300, snd (last cs))] else [])
       \<and> map snd (timers (calls invoked 300 cs (idle h []))) =
           [(fst (last cs) + 300, snd (last cs))]"
proof -
  obtain t args cs' where cs: "cs = (t, args) # cs'" using assms(1) by (cases cs) auto
  let ?D = "idle h [] :: ('a, (int \<times> 'a) list) Debounce"
  have op: "one_pending ?D" by (simp add: idle_def one_pending_def)
  have nd: "\<forall>tm\<in>set (timers ?D). t < fst (snd tm)" by (simp add: idle_def)
  have R: "calls invoked 300 cs ?D =
      \<lparr>timers = [(h + length cs', fst (last cs) + 300, snd (last cs))],
       nextHandle = Suc (h + length cs'), timeoutId = Some (h + length cs'), target = []\<rparr>"
    using calls_burst [OF assms(2) [unfolded cs] op nd, of invoked, folded cs]
    by (simp add: idle_def)
  show ?thesis
  proof (cases "fst (last cs) + 300 \<le> T")
    case True
    have tm: "timers (calls invoked 300 cs ?D) =
        [(h + length cs', fst (last cs) + 300, snd (last cs))]"
      by (simp add: R)
    show ?thesis
      unfolding elapse_one_due [OF tm True] using True by (simp add: R invoked_def)
  next
    case False
    then have "\<forall>tm\<in>set (timers (calls invoked 300 cs ?D)). T < fst (snd tm)"
      by (simp add: R)
    then have "elapse invoked T (calls invoked 300 cs ?D) = calls invoked 300 cs ?D"
      by (rule elapse_none_due)
    then show ?thesis using False by (simp add: R)
  qed
qed

theorem debounce_spec_witness:
  "target (elapse invoked 699 (calls invoked 300 three_calls (idle 1 []))) = [(699, ''nyc'')]
   \<and> target (elapse invoked 698 (calls invoked 300 three_calls (idle 1 []))) = []
   \<and> map snd (timers (calls invoked 300 three_calls (idle 1 []))) = [(699, ''nyc'')]"
proof -
  have a: "three_calls \<noteq> []" by (simp add: three_calls_def)
  have b: "burst 300 three_calls" by (simp add: three_calls_def)
  have l: "last three_calls = (399, ''nyc'')" by (simp add: three_calls_def)
  show ?thesis
    using debounce_spec [OF a b, of 699 1] debounce_spec [OF a b, of 698 1]
    by (simp add: l)
qed

section \<open>Properties of the page\<close>

text \<open>
  C7. When the timer of the debounced refresh fires for a location, the action looks at
  \<^verbatim>\<open>canRefresh\<close> first: if it is false the state is left as it is (no record, no
  fetch); if it is true the action calls \<^verbatim>\<open>recordRefresh\<close> and then the host's
  \<^verbatim>\<open>refreshWeather\<close> for that location.
\<close>

theorem refreshAction_spec:
  "(\<not> canRefresh now1 lid (lastRefreshTimestamp p) \<longrightarrow> refreshAction now1 now2 lid p = p)
   \<and> (canRefresh now1 lid (lastRefreshTimestamp p) \<longrightarrow>
        refreshAction now1 now2 lid p =
          p\<lparr>lastRefreshTimestamp := recordRefresh now2 lid (lastRefreshTimestamp p),
            isRevalidating := True,
            history := history p @ [RecordRefresh lid, RefreshWeather (Some lid)]\<rparr>)
   \<and> (timers D = [(h, due, lid)] \<and> due \<le> now \<longrightarrow>
        target (runTimers now D) = refreshAction due due lid (target D))"
  by (simp add: refreshAction_def page_recordRefresh_def refreshWeather_def runTimers_def
        elapse_one_due)

theorem refreshAction_spec_witness:
  "refreshAction 11000 11000 ''paris'' paris_refreshed = paris_refreshed
   \<and> history (refreshAction 31001 31002 ''paris'' paris_refreshed) =
       [RecordRefresh ''paris'', RefreshWeather (Some ''paris'')]
   \<and> lastRefreshTimestamp (refreshAction 31001 31002 ''paris'' paris_refreshed) ''paris'' =
       Some 31002
   \<and> target (runTimers 11300
        \<lparr>timers = [(1, 11300, ''paris'')], nextHandle = 2, timeoutId = Some 1,
         target = paris_refreshed\<rparr>) = paris_refreshed"
proof -
  let ?D = "\<lparr>timers = [(1, 11300, ''paris'')], nextHandle = 2, timeoutId = Some 1,
         target = paris_refreshed\<rparr>"
  have no: "\<not> canRefresh 11000 ''paris'' (lastRefreshTimestamp paris_refreshed)"
    by (simp add: canRefresh_def paris_refreshed_def REFRESH_COOLDOWN_MS_def)
  have no': "\<not> canRefresh 11300 ''paris'' (lastRefreshTimestamp paris_refreshed)"
    by (simp add: canRefresh_def paris_refreshed_def REFRESH_COOLDOWN_MS_def)
  have yes: "canRefresh 31001 ''paris'' (lastRefreshTimestamp paris_refreshed)"
    by (simp add: canRefresh_def paris_refreshed_def REFRESH_COOLDOWN_MS_def)
  have tm: "timers ?D = [(1, 11300, ''paris'')] \<and> (11300::int) \<le> 11300" by simp
  have 1: "refreshAction 11000 11000 ''paris'' paris_refreshed = paris_refreshed"
    using refreshAction_spec [of 11000 "''paris''" paris_refreshed 11000 ?D 1 11300 11300] no
    by blast
  have 2: "refreshAction 31001 31002 ''paris'' paris_refreshed =
      paris_refreshed\<lparr>lastRefreshTimestamp :=
          recordRefresh 31002 ''paris'' (lastRefreshTimestamp paris_refreshed),
        isRevalidating := True,
        history := history paris_refreshed @ [RecordRefresh ''paris'', RefreshWeather (Some ''paris'')]\<rparr>"
    using refreshAction_spec [of 31001 "''paris''" paris_refreshed 31002 ?D 1 11300 11300] yes
    by blast
  have 3: "target (runTimers 11300 ?D) = refreshAction 11300 11300 ''paris'' (target ?D)"
    using refreshAction_spec [of 11300 "''paris''" paris_refreshed 11300 ?D 1 11300 11300] tm
    by blast
  have 4: "refreshAction 11300 11300 ''paris'' paris_refreshed = paris_refreshed"
    using refreshAction_spec [of 11300 "''paris''" paris_refreshed 11300 ?D 1 11300 11300] no'
    by blast
  show ?thesis
    unfolding 1 2 3 using 4 by (simp add: paris_refreshed_def recordRefresh_def)
qed

text \<open>
  C1 as claimed: when a payload fetched for one location arrives while another location is
  active, the cache entry of the first is updated and the displayed payload is left as it
  is. With Tokyo active and shown, the arrival of the Paris payload leaves the cache
  without an entry for Paris and replaces what is displayed.
\<close>

theorem weatherEffect_race_counterexample:
  "own (weatherCache (weatherEffect 5000 tokyo_props tokyo_shown)) ''paris'' \<noteq>
     Some \<lparr>data = ''paris forecast'', timestamp = 5000, locationId = ''paris''\<rparr>
   \<and> lookup ''paris'' (weatherCache (weatherEffect 5000 tokyo_props tokyo_shown)) = JsUndefined
   \<and> cachedWeatherDisplay (weatherEffect 5000 tokyo_props tokyo_shown) \<noteq>
       cachedWeatherDisplay tokyo_shown"
  by (simp add: weatherEffect_def tokyo_props_def tokyo_shown_def effectLocationId_def
        setCachedWeather_def lookup_def inherited_def objectPrototypeNames_def Let_def)

text \<open>
  C1 as amended. The effect is not told which location a payload was fetched for. The
  key it uses is the active location id, \<^verbatim>\<open>weatherLocationId\<close>; when that is empty,
  \<^verbatim>\<open>current-location\<close> if there is a device location, else the id of the home location
  if there is one and its id is not empty, else \<^verbatim>\<open>default\<close>. When a payload arrives
  it is put into the cache under that key with the current time (as an own entry, or as
  the prototype when the key is \<^verbatim>\<open>__proto__\<close>), it replaces the displayed payload,
  and the revalidating flag is cleared; the own entry of every other key is left as it
  is. Without a payload the effect does nothing.
\<close>

theorem weatherEffect_spec:
  "effectLocationId props =
     (if weatherLocationId props \<noteq> [] then weatherLocationId props
      else if currentLocation props \<noteq> None then ''current-location''
      else (case homeLocation props of
              Some h \<Rightarrow> if loc_id h \<noteq> [] then loc_id h else ''default''
            | None \<Rightarrow> ''default''))
   \<and> (weather props = Some w \<longrightarrow>
        weatherEffect now props p =
          p\<lparr>weatherCache :=
              (if effectLocationId props = ''__proto__''
               then (weatherCache p)
                      \<lparr>proto := Some \<lparr>data = w, timestamp = now, locationId = ''__proto__''\<rparr>\<rparr>
               else (weatherCache p)
                      \<lparr>own := (own (weatherCache p))(effectLocationId props \<mapsto>
                          \<lparr>data = w, timestamp = now, locationId = effectLocationId props\<rparr>)\<rparr>),
            cachedWeatherDisplay := Some w,
            isRevalidating := False\<rparr>)
   \<and> (k \<noteq> effectLocationId props \<longrightarrow>
        own (weatherCache (weatherEffect now props p)) k = own (weatherCache p) k)
   \<and> (weather props = None \<longrightarrow> weatherEffect now props p = p)"
proof (intro conjI impI)
  show "effectLocationId props =
     (if weatherLocationId props \<noteq> [] then weatherLocationId props
      else if currentLocation props \<noteq> None then ''current-location''
      else (case homeLocation props of
              Some h \<Rightarrow> if loc_id h \<noteq> [] then loc_id h else ''default''
            | None \<Rightarrow> ''default''))"
    by (simp add: effectLocationId_def split: option.splits)
next
  assume "weather props = Some w"
  then show "weatherEffect now props p =
          p\<lparr>weatherCache :=
              (if effectLocationId props = ''__proto__''
               then (weatherCache p)
                      \<lparr>proto := Some \<lparr>data = w, timestamp = now, locationId = ''__proto__''\<rparr>\<rparr>
               else (weatherCache p)
                      \<lparr>own := (own (weatherCache p))(effectLocationId props \<mapsto>
                          \<lparr>data = w, timestamp = now, locationId = effectLocationId props\<rparr>)\<rparr>),
            cachedWeatherDisplay := Some w,
            isRevalidating := False\<rparr>"
    by (simp add: weatherEffect_def setCachedWeather_def Let_def)
next
  assume "k \<noteq> effectLocationId props"
  then show "own (weatherCache (weatherEffect now props p)) k = own (weatherCache p) k"
    by (simp add: weatherEffect_def setCachedWeather_def Let_def split: option.splits)
next
  assume "weather props = None"
  then show "weatherEffect now props p = p"
    by (simp add: weatherEffect_def)
qed

theorem weatherEffect_spec_witness:
  "effectLocationId home_props = ''home''
   \<and> own (weatherCache (weatherEffect 5000 tokyo_props tokyo_shown)) ''tokyo'' =
     Some \<lparr>data = ''paris forecast'', timestamp = 5000, locationId = ''tokyo''\<rparr>
   \<and> cachedWeatherDisplay (weatherEffect 5000 tokyo_props tokyo_shown) = Some ''paris forecast''
   \<and> own (weatherCache (weatherEffect 5000 tokyo_props tokyo_shown)) ''paris'' = None
   \<and> weatherEffect 5000 home_props tokyo_shown = tokyo_shown"
proof -
  have w: "weather tokyo_props = Some ''paris forecast''" by (simp add: tokyo_props_def)
  have nw: "weather home_props = None" by (simp add: home_props_def)
  note S = weatherEffect_spec [of tokyo_props "''paris forecast''" 5000 tokyo_shown "''paris''"]
  note H = weatherEffect_spec [of home_props "''paris forecast''" 5000 tokyo_shown "''paris''"]
  from H have h: "effectLocationId home_props = ''home''" by (simp add: home_props_def)
  from H nw have 5: "weatherEffect 5000 home_props tokyo_shown = tokyo_shown" by blast
  from S have l: "effectLocationId tokyo_props = ''tokyo''" by (simp add: tokyo_props_def)
  from S w have e: "weatherEffect 5000 tokyo_props tokyo_shown =
          tokyo_shown\<lparr>weatherCache :=
              (if effectLocationId tokyo_props = ''__proto__''
               then (weatherCache tokyo_shown)
                      \<lparr>proto := Some \<lparr>data = ''paris forecast'', timestamp = 5000, locationId = ''__proto__''\<rparr>\<rparr>
               else (weatherCache tokyo_shown)
                      \<lparr>own := (own (weatherCache tokyo_shown))(effectLocationId tokyo_props \<mapsto>
                          \<lparr>data = ''paris forecast'', timestamp = 5000, locationId = effectLocationId tokyo_props\<rparr>)\<rparr>),
            cachedWeatherDisplay := Some ''paris forecast'',
            isRevalidating := False\<rparr>"
    by blast
  from S l have "own (weatherCache (weatherEffect 5000 tokyo_props tokyo_shown)) ''paris'' =
      own (weatherCache tokyo_shown) ''paris''"
    by simp
  then have 3: "own (weatherCache (weatherEffect 5000 tokyo_props tokyo_shown)) ''paris'' = None"
    by (simp add: tokyo_shown_def)
  show ?thesis using 3 5 h by (simp add: e l)
qed

lemma target_debounced: "target (debounced wait now args D) = target D"
  by (simp add: debounced_def setTimeout_def split: option.split)

text \<open>
  What the location effect does with an own entry of the active location: one older than
  the TTL is removed and the display is cleared, with no timer set; one within the TTL is
  displayed, and a timer is set only when the clock has moved between the two reads.
\<close>

lemma locationEffect_expired:
  assumes "own (weatherCache (target D)) (effectLocationId props) = Some e"
    and "clk 0 - timestamp e > CACHE_TTL_MS"
  shows "cachedWeatherDisplay (target (locationEffect clk props D)) = None
       \<and> timers (locationEffect clk props D) = timers D
       \<and> own (weatherCache (target (locationEffect clk props D))) (effectLocationId props) = None"
  using assms
  by (simp add: locationEffect_def getCachedWeather_def lookup_def Let_def page_recordRefresh_def
        refreshWeather_def)

lemma locationEffect_shown:
  assumes "own (weatherCache (target D)) (effectLocationId props) = Some e"
    and "clk 0 - timestamp e \<le> CACHE_TTL_MS"
  shows "cachedWeatherDisplay (target (locationEffect clk props D)) = Some (data e)
       \<and> (timers (locationEffect clk props D) \<noteq> timers D \<longrightarrow> clk 0 < clk 1)"
  using assms
  by (auto simp: locationEffect_def getCachedWeather_def isCacheStale_def lookup_def Let_def
        debouncedRefresh_def target_debounced)

text \<open>
  C2 asks that a change to a location whose entry is older than 300 s displays the entry
  and sets the debounce timer. Evaluated for Paris with an entry aged 301 s: the entry
  is removed, the display is cleared, no timer is set, and the refresh is requested at
  once.
\<close>

theorem locationEffect_stale_paris:
  "cachedWeatherDisplay (target (locationEffect (\<lambda>_. 302000) paris_props paris_stale)) = None
   \<and> timers (locationEffect (\<lambda>_. 302000) paris_props paris_stale) = []
   \<and> own (weatherCache (target (locationEffect (\<lambda>_. 302000) paris_props paris_stale))) ''paris'' = None
   \<and> lookup ''paris'' (weatherCache (target (locationEffect (\<lambda>_. 302000) paris_props paris_stale)))
       = JsUndefined
   \<and> history (target (locationEffect (\<lambda>_. 302000) paris_props paris_stale)) =
       [RecordRefresh ''paris'', RefreshWeather (Some ''paris'')]"
  by (simp add: locationEffect_def getCachedWeather_def lookup_def inherited_def Let_def
        page_recordRefresh_def refreshWeather_def paris_props_def paris_stale_def idle_def
        effectLocationId_def CACHE_TTL_MS_def canRefresh_def objectPrototypeNames_def)

text \<open>
  C9. The error view is rendered exactly when the host reports a non-empty error and
  there is neither a payload held for display nor a payload from the host, and it shows
  that error; in every other case the forecast is rendered from the payload to display,
  the held one first.
\<close>

theorem render_spec:
  "((render props p = ErrorView msg) =
      (weatherError props = Some msg \<and> msg \<noteq> []
       \<and> cachedWeatherDisplay p = None \<and> weather props = None))
   \<and> (displayWeather props p = Some w \<longrightarrow> render props p = ForecastView (Some w))
   \<and> (cachedWeatherDisplay p = Some w \<longrightarrow> displayWeather props p = Some w)
   \<and> (cachedWeatherDisplay p = None \<longrightarrow> displayWeather props p = weather props)
   \<and> ((\<forall>m. render props p \<noteq> ErrorView m) \<longrightarrow>
        render props p = ForecastView (displayWeather props p))"
  by (auto simp: render_def displayWeather_def split: option.splits)

theorem render_spec_witness:
  "render timeout_props tokyo_shown = ForecastView (Some ''tokyo forecast'')
   \<and> render timeout_props (tokyo_shown\<lparr>cachedWeatherDisplay := None\<rparr>) = ErrorView ''timeout''"
proof -
  let ?q = "tokyo_shown\<lparr>cachedWeatherDisplay := None\<rparr>"
  have c: "cachedWeatherDisplay tokyo_shown = Some ''tokyo forecast''"
    by (simp add: tokyo_shown_def)
  note S = render_spec [of timeout_props tokyo_shown "''timeout''" "''tokyo forecast''"]
  from S c have "displayWeather timeout_props tokyo_shown = Some ''tokyo forecast''" by blast
  with S have 1: "render timeout_props tokyo_shown = ForecastView (Some ''tokyo forecast'')"
    by blast
  have e: "weatherError timeout_props = Some ''timeout'' \<and> ''timeout'' \<noteq> []
       \<and> cachedWeatherDisplay ?q = None \<and> weather timeout_props = None"
    by (simp add: timeout_props_def)
  have 2: "render timeout_props ?q = ErrorView ''timeout''"
    using render_spec [of timeout_props ?q "''timeout''" "''tokyo forecast''"] e by blast
  from 1 2 show ?thesis by blast
qed

lemma list_ex_loc_id: "list_ex (\<lambda>loc. loc_id loc = l) locs = (l \<in> loc_id ` set locs)"
  by (auto simp: list_ex_iff)

text \<open>
  C8. \<^verbatim>\<open>initializeLocation\<close> does nothing when a location is active. Otherwise a
  stored, non-empty last location is restored if it is the id of a saved location, or
  \<^verbatim>\<open>current-location\<close> with a device location present, or the id of the home
  location; if nothing is restored the device location is chosen when there is one, else
  the home location, else nothing. The save effect writes a non-empty active location
  under \<^verbatim>\<open>lastViewedWeatherLocation\<close> and writes nothing for an empty one.
\<close>

theorem initializeLocation_spec:
  "(weatherLocationId props \<noteq> [] \<longrightarrow> initializeLocation storage props = None)
   \<and> (weatherLocationId props = [] \<and> storage ''lastViewedWeatherLocation'' = Some l \<and> l \<noteq> []
        \<and> (l \<in> loc_id ` set (savedLocations props)
            \<or> (l = ''current-location'' \<and> currentLocation props \<noteq> None)
            \<or> (\<exists>h. homeLocation props = Some h \<and> loc_id h = l)) \<longrightarrow>
        initializeLocation storage props = Some l)
   \<and> (weatherLocationId props = []
        \<and> (storage ''lastViewedWeatherLocation'' = None
            \<or> storage ''lastViewedWeatherLocation'' = Some l
               \<and> (l = [] \<or> \<not> (l \<in> loc_id ` set (savedLocations props)
                     \<or> (l = ''current-location'' \<and> currentLocation props \<noteq> None)
                     \<or> (\<exists>h. homeLocation props = Some h \<and> loc_id h = l)))) \<longrightarrow>
        initializeLocation storage props =
          (if currentLocation props \<noteq> None then Some ''current-location''
           else map_option loc_id (homeLocation props)))
   \<and> (weatherLocationId props \<noteq> [] \<longrightarrow>
        saveLocationEffect props storage =
          storage(''lastViewedWeatherLocation'' \<mapsto> weatherLocationId props))
   \<and> (weatherLocationId props = [] \<longrightarrow> saveLocationEffect props storage = storage)"
proof (intro conjI impI)
  assume "weatherLocationId props \<noteq> []"
  then show "initializeLocation storage props = None"
    by (simp add: initializeLocation_def)
next
  assume "weatherLocationId props = [] \<and> storage ''lastViewedWeatherLocation'' = Some l \<and> l \<noteq> []
        \<and> (l \<in> loc_id ` set (savedLocations props)
            \<or> (l = ''current-location'' \<and> currentLocation props \<noteq> None)
            \<or> (\<exists>h. homeLocation props = Some h \<and> loc_id h = l))"
  then show "initializeLocation storage props = Some l"
    by (auto simp: initializeLocation_def LAST_LOCATION_KEY_def list_ex_loc_id Let_def)
next
  assume "weatherLocationId props = []
        \<and> (storage ''lastViewedWeatherLocation'' = None
            \<or> storage ''lastViewedWeatherLocation'' = Some l
               \<and> (l = [] \<or> \<not> (l \<in> loc_id ` set (savedLocations props)
                     \<or> (l = ''current-location'' \<and> currentLocation props \<noteq> None)
                     \<or> (\<exists>h. homeLocation props = Some h \<and> loc_id h = l))))"
  then show "initializeLocation storage props =
          (if currentLocation props \<noteq> None then Some ''current-location''
           else map_option loc_id (homeLocation props))"
    by (auto simp: initializeLocation_def LAST_LOCATION_KEY_def list_ex_loc_id Let_def
             split: option.splits)
next
  assume "weatherLocationId props \<noteq> []"
  then show "saveLocationEffect props storage =
          storage(''lastViewedWeatherLocation'' \<mapsto> weatherLocationId props)"
    by (simp add: saveLocationEffect_def LAST_LOCATION_KEY_def)
next
  assume "weatherLocationId props = []"
  then show "saveLocationEffect props storage = storage"
    by (simp add: saveLocationEffect_def)
qed

theorem initializeLocation_spec_witness:
  "initializeLocation (Map.empty(''lastViewedWeatherLocation'' \<mapsto> ''berlin'')) berlin_props
     = Some ''berlin''
   \<and> initializeLocation (Map.empty(''lastViewedWeatherLocation'' \<mapsto> ''oslo'')) berlin_props
     = Some ''home''
   \<and> initializeLocation Map.empty (berlin_props\<lparr>weatherLocationId := ''berlin''\<rparr>) = None
   \<and> saveLocationEffect (berlin_props\<lparr>weatherLocationId := ''berlin''\<rparr>) Map.empty
     = Map.empty(''lastViewedWeatherLocation'' \<mapsto> ''berlin'')
   \<and> saveLocationEffect berlin_props (Map.empty(''lastViewedWeatherLocation'' \<mapsto> ''oslo''))
     = Map.empty(''lastViewedWeatherLocation'' \<mapsto> ''oslo'')"
proof -
  let ?sb = "Map.empty(''lastViewedWeatherLocation'' \<mapsto> ''berlin'')"
  let ?so = "Map.empty(''lastViewedWeatherLocation'' \<mapsto> ''oslo'')"
  let ?pb = "berlin_props\<lparr>weatherLocationId := ''berlin''\<rparr>"
  have e: "weatherLocationId berlin_props = []" by (simp add: berlin_props_def)
  have n: "weatherLocationId ?pb \<noteq> []" by simp
  have hb: "weatherLocationId berlin_props = [] \<and> ?sb ''lastViewedWeatherLocation'' = Some ''berlin''
        \<and> ''berlin'' \<noteq> []
        \<and> (''berlin'' \<in> loc_id ` set (savedLocations berlin_props)
            \<or> (''berlin'' = ''current-location'' \<and> currentLocation berlin_props \<noteq> None)
            \<or> (\<exists>h. homeLocation berlin_props = Some h \<and> loc_id h = ''berlin''))"
    by (simp add: berlin_props_def)
  have ho: "weatherLocationId berlin_props = []
        \<and> (?so ''lastViewedWeatherLocation'' = None
            \<or> ?so ''lastViewedWeatherLocation'' = Some ''oslo''
               \<and> (''oslo'' = [] \<or> \<not> (''oslo'' \<in> loc_id ` set (savedLocations berlin_props)
                     \<or> (''oslo'' = ''current-location'' \<and> currentLocation berlin_props \<noteq> None)
                     \<or> (\<exists>h. homeLocation berlin_props = Some h \<and> loc_id h = ''oslo''))))"
    by (simp add: berlin_props_def)
  have 1: "initializeLocation ?sb berlin_props = Some ''berlin''"
    using initializeLocation_spec [of berlin_props ?sb "''berlin''"] hb by blast
  have "initializeLocation ?so berlin_props =
          (if currentLocation berlin_props \<noteq> None then Some ''current-location''
           else map_option loc_id (homeLocation berlin_props))"
    using initializeLocation_spec [of berlin_props ?so "''oslo''"] ho by blast
  then have 2: "initializeLocation ?so berlin_props = Some ''home''"
    by (simp add: berlin_props_def)
  have 3: "initializeLocation Map.empty ?pb = None"
    using initializeLocation_spec [of ?pb Map.empty "''berlin''"] n by blast
  have "saveLocationEffect ?pb Map.empty =
      Map.empty(''lastViewedWeatherLocation'' \<mapsto> weatherLocationId ?pb)"
    using initializeLocation_spec [of ?pb Map.empty "''berlin''"] n by blast
  then have 4: "saveLocationEffect ?pb Map.empty = ?sb" by simp
  have 5: "saveLocationEffect berlin_props ?so = ?so"
    using initializeLocation_spec [of berlin_props ?so "''oslo''"] e by blast
  from 1 2 3 4 5 show ?thesis by simp
qed

end
